theory Spec2Isabelle
  imports Complex_Main "HOL-Library.Sublist"
begin

section \<open>NyayaMitra background jobs: data model\<close>

text \<open>
  The job handlers of \<^verbatim>\<open>src/jobs\<close> (case sync, report triage, SOS dispatch,
  notification rendering, health check) are embedded as functions over an explicit
  database and queue state. Strings are \<open>string\<close>; \<open>Date\<close> values are their
  \<open>getTime()\<close> in milliseconds (\<open>int\<close>); a thrown JavaScript \<open>Error\<close> is the value
  \<open>Error message\<close> on the left of a sum.
\<close>

datatype error = Error string

datatype userRole = CITIZEN | ADVOCATE | ADMIN | MODERATOR

datatype caseStatus = CasePENDING | CaseONGOING | CaseADJOURNED | CaseDISPOSED | CaseDISMISSED

datatype sosStatus = PENDING | ACKNOWLEDGED | IN_PROGRESS | RESOLVED | SosDISMISSED

datatype sosPriority = SosLOW | SosMEDIUM | SosHIGH | SosCRITICAL

datatype reportStatus = SUBMITTED | UNDER_REVIEW | INVESTIGATING | ACTION_TAKEN | CLOSED | DISMISSED

datatype uploadStatus = UploadPENDING | UPLOADING | COMPLETED | FAILED

text \<open>The triage priority, \<^verbatim>\<open>'LOW' | 'MEDIUM' | 'HIGH'\<close>.\<close>

datatype priority = LOW | MEDIUM | HIGH

record user =
  u_id :: string
  u_firstName :: string
  u_lastName :: string
  u_role :: userRole
  u_isActive :: bool

record caseRecord =
  c_id :: string
  c_caseNumber :: string
  c_title :: string
  c_court :: string
  c_judge :: "string option"
  c_status :: caseStatus
  c_filingDate :: int
  c_nextHearing :: "int option"
  c_updatedAt :: int

text \<open>A row of \<^verbatim>\<open>caseFollow\<close> as \<^verbatim>\<open>findMany\<close> returns it with
  \<^verbatim>\<open>include: { user: true }\<close>: the follower's user row is joined in.\<close>

record caseFollow =
  f_caseId :: string
  f_userId :: string
  f_user :: user

record corruptionReport =
  r_id :: string
  r_title :: string
  r_description :: string
  r_department :: string
  r_status :: reportStatus
  r_assignedTo :: "string option"
  r_createdAt :: int
  r_updatedAt :: int

record mediaAsset =
  m_corruptionReportId :: "string option"
  m_uploadStatus :: uploadStatus

record sosIncident =
  s_id :: string
  s_status :: sosStatus
  s_updatedAt :: int

datatype notificationType = Email | Sms

text \<open>\<^verbatim>\<open>NotificationJobData\<close>; the \<^verbatim>\<open>data: Record<string, any>\<close> is an
  association list of rendered values.\<close>

record notificationJobData =
  n_userId :: string
  n_type :: notificationType
  n_template :: string
  n_data :: "(string \<times> string) list"

text \<open>What the handlers read and write: the Prisma tables, the jobs added to the
  \<^verbatim>\<open>notifications\<close> queue (name and payload, in order of \<^verbatim>\<open>add\<close>), and the
  emergency services called so far.\<close>

record world =
  cases :: "caseRecord list"
  caseFollows :: "caseFollow list"
  users :: "user list"
  corruptionReports :: "corruptionReport list"
  mediaAssets :: "mediaAsset list"
  sosIncidents :: "sosIncident list"
  notificationQueue :: "(string \<times> notificationJobData) list"
  serviceCalls :: "string list"

text \<open>The database calls the handlers make; the environment may make any of them reject.\<close>

datatype dbOp =
    CaseFindUnique string
  | CaseUpsert string
  | CaseFollowFindMany string
  | CaseFollowCount string
  | ReportFindUnique string
  | ReportUpdate string
  | ReportCount string
  | MediaAssetCount string
  | UserFindMany "userRole list"
  | SosIncidentUpdate string sosStatus

text \<open>
  What a run takes from outside the code: the clock (\<^verbatim>\<open>Date.now()\<close>, one value per
  run), the successive values of \<^verbatim>\<open>Math.random()\<close> during the run (reals, meant in
  \<open>[0, 1)\<close>), the database and queue calls that reject and with which error, the
  schema defaults of a freshly created case row, and the date formatting built-ins.
\<close>

record env =
  now :: int
  random :: "nat \<Rightarrow> real"
  dbError :: "dbOp \<Rightarrow> error option"
  queueError :: "notificationJobData \<Rightarrow> error option"
  caseDefaults :: caseRecord
  toISOString :: "int \<Rightarrow> string"
  toLocaleString :: "int \<Rightarrow> string"
  toLocaleDateString :: "string \<Rightarrow> string"

section \<open>Strings\<close>

text \<open>\<^verbatim>\<open>toLowerCase\<close> on the ASCII letters; other characters are kept.\<close>

definition toLowerChar :: "char \<Rightarrow> char" where
  "toLowerChar c =
     (let n = (of_char c :: nat) in if 65 \<le> n \<and> n \<le> 90 then char_of (n + 32) else c)"

definition toLowerCase :: "string \<Rightarrow> string" where
  "toLowerCase s = map toLowerChar s"

text \<open>\<^verbatim>\<open>s.includes(k)\<close>: \<open>k\<close> occurs in \<open>s\<close> as a contiguous substring.\<close>

fun includesStr :: "string \<Rightarrow> string \<Rightarrow> bool" where
  "includesStr [] k = (k = [])"
| "includesStr (c # cs) k = (prefix k (c # cs) \<or> includesStr cs k)"

text \<open>\<^verbatim>\<open>xs.join(sep)\<close>.\<close>

fun join :: "string \<Rightarrow> string list \<Rightarrow> string" where
  "join sep [] = []"
| "join sep [x] = x"
| "join sep (x # y # ys) = x @ sep @ join sep (y # ys)"

text \<open>A count in a template literal: its decimal digits.\<close>

definition digitChar :: "nat \<Rightarrow> char" where
  "digitChar d = char_of (48 + d)"

function showNat :: "nat \<Rightarrow> string" where
  "showNat n = (if n < 10 then [digitChar n] else showNat (n div 10) @ [digitChar (n mod 10)])"
  by pat_completeness auto
termination
  by (relation "measure (\<lambda>n. n)") auto

declare showNat.simps [simp del]

section \<open>Database and queue calls\<close>


text \<open>\<^verbatim>\<open>prisma.mediaAsset.count\<close> of the completed uploads of a report.\<close>

definition mediaAssetCount :: "env \<Rightarrow> world \<Rightarrow> string \<Rightarrow> error + nat" where
  "mediaAssetCount env w rid =
     (case dbError env (MediaAssetCount rid) of
        Some e \<Rightarrow> Inl e
      | None \<Rightarrow> Inr (length (filter (\<lambda>m. m_corruptionReportId m = Some rid
                                         \<and> m_uploadStatus m = COMPLETED) (mediaAssets w))))"

text \<open>\<^verbatim>\<open>prisma.user.findMany\<close> of the active users with one of the given roles.\<close>

definition userFindMany :: "env \<Rightarrow> world \<Rightarrow> userRole list \<Rightarrow> error + user list" where
  "userFindMany env w roles =
     (case dbError env (UserFindMany roles) of
        Some e \<Rightarrow> Inl e
      | None \<Rightarrow> Inr (filter (\<lambda>u. u_role u \<in> set roles \<and> u_isActive u) (users w)))"

text \<open>\<^verbatim>\<open>prisma.corruptionReport.count\<close> of the open reports assigned to a moderator.\<close>

definition reportCount :: "env \<Rightarrow> world \<Rightarrow> string \<Rightarrow> error + nat" where
  "reportCount env w mid =
     (case dbError env (ReportCount mid) of
        Some e \<Rightarrow> Inl e
      | None \<Rightarrow> Inr (length (filter (\<lambda>r. r_assignedTo r = Some mid
                                         \<and> r_status r \<in> {UNDER_REVIEW, INVESTIGATING})
                                (corruptionReports w))))"


text \<open>\<^verbatim>\<open>notificationQueue.add('send-notification', data)\<close>.\<close>

definition queueAdd :: "env \<Rightarrow> notificationJobData \<Rightarrow> world \<Rightarrow> error + world" where
  "queueAdd env d w =
     (case queueError env d of
        Some e \<Rightarrow> Inl e
      | None \<Rightarrow> Inr (w\<lparr>notificationQueue := notificationQueue w @ [(''send-notification'', d)]\<rparr>))"

text \<open>A \<^verbatim>\<open>for ... of\<close> loop of awaited \<^verbatim>\<open>add\<close> calls: the first rejection leaves
  the loop, with the jobs added before it still in the queue.\<close>

fun enqueueEach :: "env \<Rightarrow> notificationJobData list \<Rightarrow> world \<Rightarrow> (error + unit) \<times> world" where
  "enqueueEach env [] w = (Inr (), w)"
| "enqueueEach env (d # ds) w =
     (case queueAdd env d w of
        Inl e \<Rightarrow> (Inl e, w)
      | Inr w' \<Rightarrow> enqueueEach env ds w')"

section \<open>Report triage (\<^verbatim>\<open>ReportTriageJob.ts\<close>)\<close>


record triageResult =
  t_status :: reportStatus
  t_assignedTo :: "string option"
  t_priority :: priority
  t_reasoning :: "string list"

record moderatorWorkload =
  moderatorId :: string
  workload :: nat

definition highPriorityKeywords :: "string list" where
  "highPriorityKeywords =
     [''bribe'', ''extortion'', ''fraud'', ''embezzlement'', ''money laundering'',
      ''large amount'', ''minister'', ''senior official'', ''urgent'', ''ongoing'']"

definition mediumPriorityKeywords :: "string list" where
  "mediumPriorityKeywords =
     [''nepotism'', ''favoritism'', ''misuse'', ''irregularity'', ''violation'']"

definition highPriorityDepartments :: "string list" where
  "highPriorityDepartments = [''police'', ''judiciary'', ''revenue'', ''customs'', ''banking'']"

text \<open>The order \<open>LOW < MEDIUM < HIGH\<close>.\<close>

fun priorityRank :: "priority \<Rightarrow> nat" where
  "priorityRank LOW = 0"
| "priorityRank MEDIUM = 1"
| "priorityRank HIGH = 2"

fun priorityString :: "priority \<Rightarrow> string" where
  "priorityString LOW = ''LOW''"
| "priorityString MEDIUM = ''MEDIUM''"
| "priorityString HIGH = ''HIGH''"

text \<open>The text that is scanned: \<^verbatim>\<open>`${report.title} ${report.description}`.toLowerCase()\<close>.\<close>

definition reportContent :: "corruptionReport \<Rightarrow> string" where
  "reportContent report = toLowerCase (r_title report @ '' '' @ r_description report)"

text \<open>
  \<^verbatim>\<open>performAutoTriage\<close> updates the pair of \<^verbatim>\<open>priority\<close> and \<^verbatim>\<open>reasoning\<close> in
  five consecutive blocks; each block is one function here, in the order of the source.
\<close>

definition highKeywordStage :: "string \<Rightarrow> priority \<times> string list \<Rightarrow> priority \<times> string list" where
  "highKeywordStage content = (\<lambda>(priority, reasoning).
     let highMatches = filter (\<lambda>keyword. includesStr content keyword) highPriorityKeywords
     in if length highMatches > 0
        then (HIGH, reasoning @ [''High priority keywords detected: '' @ join '', '' highMatches])
        else (priority, reasoning))"

definition mediumKeywordStage :: "string \<Rightarrow> priority \<times> string list \<Rightarrow> priority \<times> string list" where
  "mediumKeywordStage content = (\<lambda>(priority, reasoning).
     let mediumMatches = filter (\<lambda>keyword. includesStr content keyword) mediumPriorityKeywords
     in if length mediumMatches > 0 \<and> priority \<noteq> HIGH
        then (MEDIUM, reasoning @ [''Medium priority keywords detected: '' @ join '', '' mediumMatches])
        else (priority, reasoning))"

text \<open>The two assignments of the department block run one after the other: the second
  test reads the priority the first one may have raised.\<close>

definition departmentStage ::
  "corruptionReport \<Rightarrow> priority \<times> string list \<Rightarrow> priority \<times> string list" where
  "departmentStage report = (\<lambda>(priority, reasoning).
     if list_ex (\<lambda>dept. includesStr (toLowerCase (r_department report)) dept) highPriorityDepartments
     then (let priority1 = (if priority = MEDIUM then HIGH else priority);
               priority2 = (if priority1 = LOW then MEDIUM else priority1)
           in (priority2, reasoning @ [''High-impact department: '' @ r_department report]))
     else (priority, reasoning))"

definition evidenceStage :: "nat \<Rightarrow> priority \<times> string list \<Rightarrow> priority \<times> string list" where
  "evidenceStage evidenceCount = (\<lambda>(priority, reasoning).
     if evidenceCount > 0
     then (if priority = LOW then MEDIUM else priority,
           reasoning @ [showNat evidenceCount @ '' evidence file(s) attached''])
     else (priority, reasoning))"

definition recencyStage ::
  "env \<Rightarrow> corruptionReport \<Rightarrow> string \<Rightarrow> priority \<times> string list \<Rightarrow> priority \<times> string list" where
  "recencyStage env report content = (\<lambda>(priority, reasoning).
     let reportAge = now env - r_createdAt report;
         isRecent = (reportAge < 24 * 60 * 60 * 1000)
     in if isRecent \<and> includesStr content ''ongoing''
        then (if priority = MEDIUM then HIGH else priority,
              reasoning @ [''Recent report mentioning ongoing corruption''])
        else (priority, reasoning))"

text \<open>\<^verbatim>\<open>Promise.all\<close> over the moderators: one count per moderator, in the order of
  \<^verbatim>\<open>findMany\<close>; a count that rejects rejects the whole.\<close>

fun countWorkloads :: "env \<Rightarrow> world \<Rightarrow> user list \<Rightarrow> error + moderatorWorkload list" where
  "countWorkloads env w [] = Inr []"
| "countWorkloads env w (moderator # rest) =
     (case reportCount env w (u_id moderator) of
        Inl e \<Rightarrow> Inl e
      | Inr assignedReports \<Rightarrow>
          (case countWorkloads env w rest of
             Inl e \<Rightarrow> Inl e
           | Inr counted \<Rightarrow>
               Inr (\<lparr>moderatorId = u_id moderator, workload = assignedReports\<rparr> # counted)))"

text \<open>\<^verbatim>\<open>moderatorWorkloads[0].moderatorId\<close>: reading a property of \<^verbatim>\<open>undefined\<close>
  throws, and \<^verbatim>\<open>findBestModerator\<close> turns every throw into \<^verbatim>\<open>undefined\<close>.\<close>

definition firstModeratorId :: "moderatorWorkload list \<Rightarrow> string option" where
  "firstModeratorId ms = (case ms of [] \<Rightarrow> None | m # _ \<Rightarrow> Some (moderatorId m))"

text \<open>
  \<^verbatim>\<open>findBestModerator\<close>. The whole body is inside \<^verbatim>\<open>try\<close>, and the handler returns
  \<^verbatim>\<open>undefined\<close>, so the result is an option and no error leaves the function.
  \<^verbatim>\<open>Array.prototype.sort\<close> is stable, as is \<open>sort_key\<close>. The random index is
  \<^verbatim>\<open>Math.floor(Math.random() * availableModerators.length)\<close> on the first random
  value of the run.
\<close>

definition findBestModerator :: "env \<Rightarrow> world \<Rightarrow> string \<Rightarrow> priority \<Rightarrow> string option" where
  "findBestModerator env w department priority =
     (case userFindMany env w [MODERATOR] of
        Inl e \<Rightarrow> None
      | Inr moderators \<Rightarrow>
          if length moderators = 0 then None
          else (case countWorkloads env w moderators of
                  Inl e \<Rightarrow> None
                | Inr counted \<Rightarrow>
                    (let moderatorWorkloads = sort_key workload counted
                     in if priority = HIGH then firstModeratorId moderatorWorkloads
                        else (let availableModerators = filter (\<lambda>m. workload m < 10) moderatorWorkloads
                              in if length availableModerators > 0
                                 then (let randomIndex =
                                             \<lfloor>random env 0 * real (length availableModerators)\<rfloor>
                                       in if 0 \<le> randomIndex
                                             \<and> randomIndex < int (length availableModerators)
                                          then Some (moderatorId (availableModerators ! nat randomIndex))
                                          else None)
                                 else firstModeratorId moderatorWorkloads))))"

text \<open>\<^verbatim>\<open>if (assignedTo)\<close>: a string is truthy unless it is empty.\<close>

definition truthy :: "string option \<Rightarrow> bool" where
  "truthy v = (case v of None \<Rightarrow> False | Some s \<Rightarrow> s \<noteq> [])"

definition performAutoTriage :: "env \<Rightarrow> world \<Rightarrow> corruptionReport \<Rightarrow> error + triageResult" where
  "performAutoTriage env w report =
     (let content = reportContent report;
          s1 = highKeywordStage content (MEDIUM, []);
          s2 = mediumKeywordStage content s1;
          s3 = departmentStage report s2
      in case mediaAssetCount env w (r_id report) of
           Inl e \<Rightarrow> Inl e
         | Inr evidenceCount \<Rightarrow>
             (let s4 = evidenceStage evidenceCount s3;
                  s5 = recencyStage env report content s4;
                  priority = fst s5;
                  assignedTo = findBestModerator env w (r_department report) priority;
                  reasoning6 = (if truthy assignedTo
                                then snd s5 @ [''Assigned to moderator based on expertise and workload'']
                                else snd s5)
              in if priority = HIGH
                 then Inr \<lparr>t_status = INVESTIGATING, t_assignedTo = assignedTo, t_priority = priority,
                           t_reasoning = reasoning6 @ [''High priority - moved directly to investigation'']\<rparr>
                 else Inr \<lparr>t_status = UNDER_REVIEW, t_assignedTo = assignedTo, t_priority = priority,
                           t_reasoning = reasoning6\<rparr>))"

text \<open>The payload \<^verbatim>\<open>notifyModerators\<close> adds for one moderator or admin.\<close>

definition moderatorNotification ::
  "corruptionReport \<Rightarrow> triageResult \<Rightarrow> user \<Rightarrow> notificationJobData" where
  "moderatorNotification report triageResult moderator =
     \<lparr>n_userId = u_id moderator,
      n_type = Email,
      n_template = ''high-priority-report'',
      n_data = [(''reportId'', r_id report),
                (''title'', r_title report),
                (''department'', r_department report),
                (''priority'', priorityString (t_priority triageResult)),
                (''reasoning'', join ''; '' (t_reasoning triageResult)),
                (''moderatorName'', u_firstName moderator @ '' '' @ u_lastName moderator)]\<rparr>"

text \<open>\<^verbatim>\<open>notifyModerators\<close>: the body is inside \<^verbatim>\<open>try\<close> and the handler only logs,
  so the function returns in every case; the jobs added before a rejection stay.\<close>

definition notifyModerators :: "env \<Rightarrow> world \<Rightarrow> corruptionReport \<Rightarrow> triageResult \<Rightarrow> world" where
  "notifyModerators env w report triageResult =
     (case userFindMany env w [MODERATOR, ADMIN] of
        Inl e \<Rightarrow> w
      | Inr moderators \<Rightarrow>
          snd (enqueueEach env (map (moderatorNotification report triageResult) moderators) w))"


section \<open>Notifications (\<^verbatim>\<open>NotificationJob.ts\<close>)\<close>

record emailContent =
  e_subject :: string
  e_html :: string
  e_text :: string

record smsContent =
  sms_message :: string

record notificationResult =
  nr_success :: bool
  nr_type :: notificationType
  nr_template :: string

text \<open>\<^verbatim>\<open>${data.key}\<close> in a template literal: an absent key prints as
  \<^verbatim>\<open>undefined\<close>. \<^verbatim>\<open>data.key ? a : b\<close> takes \<open>a\<close> for a present, non-empty value.\<close>

definition field :: "(string \<times> string) list \<Rightarrow> string \<Rightarrow> string" where
  "field data key = (case map_of data key of None \<Rightarrow> ''undefined'' | Some v \<Rightarrow> v)"

definition truthyField :: "(string \<times> string) list \<Rightarrow> string \<Rightarrow> bool" where
  "truthyField data key = (case map_of data key of None \<Rightarrow> False | Some v \<Rightarrow> v \<noteq> [])"

text \<open>\<^verbatim>\<open>generateEmailContent\<close>: a \<^verbatim>\<open>switch\<close> on the template name with a
  \<^verbatim>\<open>default\<close> branch. The dates are formatted by the environment.\<close>

definition generateEmailContent :: "env \<Rightarrow> string \<Rightarrow> (string \<times> string) list \<Rightarrow> emailContent" where
  \<open>generateEmailContent env template data =
    (if template = ''sos-status-update'' then
       \<lparr>e_subject = ''SOS Incident Update - '' @ field data ''status'',
        e_html =
          ''\<newline>          <h2>SOS Incident Status Update</h2>\<newline>''
          @ ''          <p>Dear '' @ field data ''userName'' @ '',</p>\<newline>''
          @ ''          <p>Your SOS incident has been updated:</p>\<newline>''
          @ ''          <ul>\<newline>''
          @ ''            <li><strong>Incident ID:</strong> '' @ field data ''incidentId''
          @ ''</li>\<newline>''
          @ ''            <li><strong>Status:</strong> '' @ field data ''status''
          @ ''</li>\<newline>''
          @ ''            <li><strong>Updated:</strong> '' @ toLocaleString env (now env)
          @ ''</li>\<newline>''
          @ ''          </ul>\<newline>''
          @ ''          <p>If you need immediate assistance, please contact emergency services directly.</p>\<newline>''
          @ ''          <p>Best regards,<br>NyayaMitra Team</p>\<newline>''
          @ ''        '',
        e_text =
          ''SOS Incident Update - '' @ field data ''status'' @ ''\<newline>\<newline>Dear ''
          @ field data ''userName'' @ '',\<newline>''
          @ ''\<newline>Your SOS incident '' @ field data ''incidentId''
          @ '' has been updated to status: '' @ field data ''status''
          @ ''\<newline>\<newline>Updated: '' @ toLocaleString env (now env)
          @ ''\<newline>\<newline>If you need immediate assistance, please contact emergency services directly.\<newline>''
          @ ''\<newline>Best regards,\<newline>''
          @ ''NyayaMitra Team''\<rparr>
     else if template = ''report-status-update'' then
       \<lparr>e_subject = ''Corruption Report Update - '' @ field data ''status'',
        e_html =
          ''\<newline>          <h2>Corruption Report Status Update</h2>\<newline>''
          @ ''          <p>Dear '' @ field data ''userName'' @ '',</p>\<newline>''
          @ ''          <p>Your corruption report has been updated:</p>\<newline>''
          @ ''          <ul>\<newline>''
          @ ''            <li><strong>Report:</strong> '' @ field data ''title''
          @ ''</li>\<newline>''
          @ ''            <li><strong>Status:</strong> '' @ field data ''status''
          @ ''</li>\<newline>''
          @ ''            <li><strong>Updated:</strong> '' @ toLocaleString env (now env)
          @ ''</li>\<newline>''
          @ ''            ''
          @ (if truthyField data ''resolution'' then ''<li><strong>Resolution:</strong> '' @ field data ''resolution'' @ ''</li>'' else [])
          @ ''\<newline>          </ul>\<newline>''
          @ ''          <p>Thank you for your contribution to fighting corruption.</p>\<newline>''
          @ ''          <p>Best regards,<br>NyayaMitra Team</p>\<newline>''
          @ ''        '',
        e_text =
          ''Corruption Report Update - '' @ field data ''status''
          @ ''\<newline>\<newline>Dear '' @ field data ''userName'' @ '',\<newline>''
          @ ''\<newline>Your corruption report "'' @ field data ''title''
          @ ''" has been updated to status: '' @ field data ''status''
          @ ''\<newline>\<newline>''
          @ (if truthyField data ''resolution'' then ''Resolution: '' @ field data ''resolution'' @ ''\<newline>'' else [])
          @ ''Updated: '' @ toLocaleString env (now env)
          @ ''\<newline>\<newline>Thank you for your contribution to fighting corruption.\<newline>''
          @ ''\<newline>Best regards,\<newline>''
          @ ''NyayaMitra Team''\<rparr>
     else if template = ''case-update'' then
       \<lparr>e_subject = ''Case Update - '' @ field data ''caseNumber'',
        e_html =
          ''\<newline>          <h2>Case Update Notification</h2>\<newline>''
          @ ''          <p>Dear '' @ field data ''userName'' @ '',</p>\<newline>''
          @ ''          <p>A case you are following has been updated:</p>\<newline>''
          @ ''          <ul>\<newline>''
          @ ''            <li><strong>Case:</strong> '' @ field data ''caseNumber'' @ '' - ''
          @ field data ''title'' @ ''</li>\<newline>''
          @ ''            <li><strong>Update:</strong> '' @ field data ''eventTitle''
          @ ''</li>\<newline>''
          @ ''            <li><strong>Date:</strong> ''
          @ toLocaleDateString env (field data ''eventDate'') @ ''</li>\<newline>''
          @ ''          </ul>\<newline>''
          @ ''          <p>You can view the full details in your NyayaMitra dashboard.</p>\<newline>''
          @ ''          <p>Best regards,<br>NyayaMitra Team</p>\<newline>''
          @ ''        '',
        e_text =
          ''Case Update - '' @ field data ''caseNumber'' @ ''\<newline>\<newline>Dear ''
          @ field data ''userName'' @ '',\<newline>''
          @ ''\<newline>A case you are following has been updated:\<newline>''
          @ ''\<newline>Case: '' @ field data ''caseNumber'' @ '' - '' @ field data ''title''
          @ ''\<newline>Update: '' @ field data ''eventTitle'' @ ''\<newline>Date: ''
          @ toLocaleDateString env (field data ''eventDate'')
          @ ''\<newline>\<newline>You can view the full details in your NyayaMitra dashboard.\<newline>''
          @ ''\<newline>Best regards,\<newline>''
          @ ''NyayaMitra Team''\<rparr>
     else
       \<lparr>e_subject = ''NyayaMitra Notification'',
        e_html =
          ''<p>You have a new notification from NyayaMitra.</p>'',
        e_text =
          ''You have a new notification from NyayaMitra.''\<rparr>)\<close>

text \<open>\<^verbatim>\<open>generateSMSContent\<close>.\<close>

definition generateSMSContent :: "env \<Rightarrow> string \<Rightarrow> (string \<times> string) list \<Rightarrow> smsContent" where
  \<open>generateSMSContent env template data =
    (if template = ''sos-status-update'' then
       \<lparr>sms_message =
          ''NyayaMitra: Your SOS incident '' @ field data ''incidentId''
          @ '' status updated to '' @ field data ''status'' @ ''. Updated: ''
          @ toLocaleString env (now env)\<rparr>
     else if template = ''report-status-update'' then
       \<lparr>sms_message =
          ''NyayaMitra: Your corruption report status updated to '' @ field data ''status''
          @ ''. ''
          @ (if truthyField data ''resolution'' then ''Resolution: '' @ field data ''resolution'' else [])\<rparr>
     else if template = ''case-update'' then
       \<lparr>sms_message =
          ''NyayaMitra: Case '' @ field data ''caseNumber'' @ '' updated - ''
          @ field data ''eventTitle'' @ ''. Date: ''
          @ toLocaleDateString env (field data ''eventDate'')\<rparr>
     else
       \<lparr>sms_message =
          ''You have a new notification from NyayaMitra.''\<rparr>)\<close>

text \<open>
  The mock senders. Each draws two random values: the first only sets the delay of the
  timer, the second decides between success and rejection.
\<close>

definition simulateEmailSend :: "env \<Rightarrow> emailContent \<Rightarrow> error + unit" where
  "simulateEmailSend env content =
     (if random env 1 < 98 / 100 then Inr () else Inl (Error ''Email delivery failed''))"

definition simulateSMSSend :: "env \<Rightarrow> smsContent \<Rightarrow> error + unit" where
  "simulateSMSSend env content =
     (if random env 1 < 95 / 100 then Inr () else Inl (Error ''SMS delivery failed''))"

text \<open>\<^verbatim>\<open>sendEmailNotification\<close> and \<^verbatim>\<open>sendSMSNotification\<close> log and rethrow.\<close>

definition sendEmailNotification ::
  "env \<Rightarrow> string \<Rightarrow> string \<Rightarrow> (string \<times> string) list \<Rightarrow> error + unit" where
  "sendEmailNotification env userId template data =
     (let emailContent = generateEmailContent env template data
      in simulateEmailSend env emailContent)"

definition sendSMSNotification ::
  "env \<Rightarrow> string \<Rightarrow> string \<Rightarrow> (string \<times> string) list \<Rightarrow> error + unit" where
  "sendSMSNotification env userId template data =
     (let smsContent = generateSMSContent env template data
      in simulateSMSSend env smsContent)"

text \<open>\<^verbatim>\<open>processNotification\<close>; the type of the payload admits the two channels only.\<close>

definition processNotification :: "env \<Rightarrow> notificationJobData \<Rightarrow> error + notificationResult" where
  "processNotification env job =
     (case (case n_type job of
              Email \<Rightarrow> sendEmailNotification env (n_userId job) (n_template job) (n_data job)
            | Sms \<Rightarrow> sendSMSNotification env (n_userId job) (n_template job) (n_data job)) of
        Inl e \<Rightarrow> Inl e
      | Inr u \<Rightarrow> Inr \<lparr>nr_success = True, nr_type = n_type job, nr_template = n_template job\<rparr>)"

section \<open>SOS dispatch (\<^verbatim>\<open>SosDispatchJob.ts\<close>)\<close>

record sosDispatchJobData =
  sd_incidentId :: string
  sd_description :: string
  sd_priority :: sosPriority

text \<open>A queue job as the handler receives it: the payload, and the retry bookkeeping of
  the queue (attempts made before this run, attempts allowed), which the handler can read
  on the job object.\<close>

record sosDispatchJob =
  sj_data :: sosDispatchJobData
  sj_attemptsMade :: nat
  sj_attempts :: nat

record sosDispatchResult =
  sr_success :: bool
  sr_servicesNotified :: "string list"

text \<open>\<^verbatim>\<open>prisma.sosIncident.update\<close> of \<^verbatim>\<open>status\<close> and \<^verbatim>\<open>updatedAt\<close>; updating
  a row that does not exist throws.\<close>

definition sosIncidentUpdate :: "env \<Rightarrow> world \<Rightarrow> string \<Rightarrow> sosStatus \<Rightarrow> error + world" where
  "sosIncidentUpdate env w incidentId st =
     (case dbError env (SosIncidentUpdate incidentId st) of
        Some e \<Rightarrow> Inl e
      | None \<Rightarrow>
          if \<not> list_ex (\<lambda>i. s_id i = incidentId) (sosIncidents w)
          then Inl (Error ''Record to update not found.'')
          else Inr (w\<lparr>sosIncidents :=
                 map (\<lambda>i. if s_id i = incidentId
                          then i\<lparr>s_status := st, s_updatedAt := now env\<rparr>
                          else i) (sosIncidents w)\<rparr>))"

text \<open>The services for a priority: the \<^verbatim>\<open>if\<close> chain at the head of the handler.\<close>

definition selectServices :: "sosPriority \<Rightarrow> string list" where
  "selectServices priority =
     (if priority = SosCRITICAL \<or> priority = SosHIGH
      then [''Police'', ''Medical'', ''Fire Department'']
      else if priority = SosMEDIUM then [''Police'']
      else [''Local Security''])"

text \<open>
  \<^verbatim>\<open>simulateEmergencyServiceCall\<close>, the \<open>k\<close>-th call of the run: it draws two random
  values, the first for the delay of the timer, the second to decide between success
  (below \<open>0.95\<close>) and rejection.
\<close>

definition simulateEmergencyServiceCall :: "env \<Rightarrow> nat \<Rightarrow> string \<Rightarrow> error + unit" where
  "simulateEmergencyServiceCall env k service =
     (if random env (2 * k + 1) < 95 / 100 then Inr ()
      else Inl (Error (''Failed to notify '' @ service)))"

text \<open>The loop over the services: each call is awaited before the next one starts, and a
  rejection leaves the loop. Every call made is recorded.\<close>

fun callServices :: "env \<Rightarrow> nat \<Rightarrow> string list \<Rightarrow> world \<Rightarrow> (error + unit) \<times> world" where
  "callServices env k [] w = (Inr (), w)"
| "callServices env k (service # rest) w =
     (let w' = w\<lparr>serviceCalls := serviceCalls w @ [service]\<rparr>
      in case simulateEmergencyServiceCall env k service of
           Inl e \<Rightarrow> (Inl e, w')
         | Inr u \<Rightarrow> callServices env (Suc k) rest w')"

text \<open>The \<^verbatim>\<open>catch\<close> block of the handler: write \<^verbatim>\<open>PENDING\<close>, then rethrow. When
  the write itself rejects, its error is the one thrown.\<close>

definition dispatchFailed ::
  "env \<Rightarrow> world \<Rightarrow> string \<Rightarrow> error \<Rightarrow> (error + sosDispatchResult) \<times> world" where
  "dispatchFailed env w incidentId e =
     (case sosIncidentUpdate env w incidentId PENDING of
        Inl e' \<Rightarrow> (Inl e', w)
      | Inr w' \<Rightarrow> (Inl e, w'))"

definition processSosDispatch ::
  "env \<Rightarrow> world \<Rightarrow> sosDispatchJob \<Rightarrow> (error + sosDispatchResult) \<times> world" where
  "processSosDispatch env w job =
     (let incidentId = sd_incidentId (sj_data job);
          services = selectServices (sd_priority (sj_data job))
      in case callServices env 0 services w of
           (Inl e, w1) \<Rightarrow> dispatchFailed env w1 incidentId e
         | (Inr u, w1) \<Rightarrow>
             (case sosIncidentUpdate env w1 incidentId ACKNOWLEDGED of
                Inl e \<Rightarrow> dispatchFailed env w1 incidentId e
              | Inr w2 \<Rightarrow> (Inr \<lparr>sr_success = True, sr_servicesNotified = services\<rparr>, w2)))"

section \<open>Case sync (\<^verbatim>\<open>CaseSyncJob.ts\<close>, \<^verbatim>\<open>CaseService.ts\<close>)\<close>















section \<open>Health of the job system (\<^verbatim>\<open>jobs/index.ts\<close>)\<close>

datatype healthStatus = Healthy | Degraded | Unhealthy

text \<open>A worker of the pool: its queue name and whether \<^verbatim>\<open>isRunning()\<close> holds.\<close>

record worker =
  wk_name :: string
  wk_isRunning :: bool

text \<open>A queue: its name and the ids of its jobs in each state.\<close>

record jobQueue =
  q_name :: string
  q_waiting :: "string list"
  q_active :: "string list"
  q_completed :: "string list"
  q_failed :: "string list"
  q_delayed :: "string list"

record queueStat =
  qs_name :: string
  qs_waiting :: nat
  qs_active :: nat
  qs_completed :: nat
  qs_failed :: nat
  qs_delayed :: nat

record workerStatus =
  ws_name :: string
  ws_status :: string

record healthReport =
  h_status :: healthStatus
  h_workers :: "workerStatus list"
  h_queues :: "queueStat list"

text \<open>The module state: the started workers and the four queues, in the order
  \<^verbatim>\<open>sos-dispatch\<close>, \<^verbatim>\<open>notifications\<close>, \<^verbatim>\<open>case-sync\<close>, \<^verbatim>\<open>report-triage\<close>.\<close>

record jobSystem =
  workers :: "worker list"
  queues :: "jobQueue list"

definition getQueueStats :: "jobSystem \<Rightarrow> queueStat list" where
  "getQueueStats js =
     map (\<lambda>queue. \<lparr>qs_name = q_name queue,
                    qs_waiting = length (q_waiting queue),
                    qs_active = length (q_active queue),
                    qs_completed = length (q_completed queue),
                    qs_failed = length (q_failed queue),
                    qs_delayed = length (q_delayed queue)\<rparr>) (queues js)"

definition checkJobSystemHealth :: "jobSystem \<Rightarrow> healthReport" where
  "checkJobSystemHealth js =
     (let workerStatuses =
            map (\<lambda>worker. \<lparr>ws_name = wk_name worker,
                            ws_status = (if wk_isRunning worker then ''running'' else ''stopped'')\<rparr>)
                (workers js);
          allWorkersRunning = list_all (\<lambda>w. ws_status w = ''running'') workerStatuses;
          queueStats = getQueueStats js;
          status = (if \<not> allWorkersRunning then Unhealthy
                    else if list_ex (\<lambda>q. qs_failed q > 10) queueStats then Degraded
                    else Healthy)
      in \<lparr>h_status = status, h_workers = workerStatuses, h_queues = queueStats\<rparr>)"

section \<open>Moderator workload, in the words of the specification\<close>

text \<open>
  The notions the claims about \<open>findBestModerator\<close> are stated with: the active
  moderators in the order the database returns them, the open-report count of a moderator
  (reports assigned to the moderator whose status is \<open>UNDER_REVIEW\<close> or \<open>INVESTIGATING\<close>),
  the first moderator of least count, and the moderators of count below ten in ascending
  order of count.
\<close>

definition activeModerators :: "world \<Rightarrow> user list" where
  "activeModerators w = filter (\<lambda>u. u_role u = MODERATOR \<and> u_isActive u) (users w)"

definition openReportCount :: "world \<Rightarrow> string \<Rightarrow> nat" where
  "openReportCount w mid =
     length (filter (\<lambda>r. r_assignedTo r = Some mid
                        \<and> (r_status r = UNDER_REVIEW \<or> r_status r = INVESTIGATING))
               (corruptionReports w))"


definition availableModerators :: "world \<Rightarrow> user list" where
  "availableModerators w =
     filter (\<lambda>m. openReportCount w (u_id m) < 10)
       (sort_key (\<lambda>m. openReportCount w (u_id m)) (activeModerators w))"


text \<open>The names of the template table, and the fixed messages of the \<^verbatim>\<open>default\<close>
  branches.\<close>

definition genericEmail :: emailContent where
  "genericEmail = \<lparr>e_subject = ''NyayaMitra Notification'',
                    e_html = ''<p>You have a new notification from NyayaMitra.</p>'',
                    e_text = ''You have a new notification from NyayaMitra.''\<rparr>"

definition genericSMS :: smsContent where
  "genericSMS = \<lparr>sms_message = ''You have a new notification from NyayaMitra.''\<rparr>"

definition templateTable :: "string list" where
  "templateTable = [''sos-status-update'', ''report-status-update'', ''case-update'']"

section \<open>Notions for the claims about SOS dispatch\<close>

text \<open>The index of the first service call that rejects, counting from call \<open>k\<close>.\<close>

fun firstFailure :: "env \<Rightarrow> nat \<Rightarrow> string list \<Rightarrow> nat option" where
  "firstFailure env k [] = None"
| "firstFailure env k (service # rest) =
     (if random env (2 * k + 1) < 95 / 100
      then map_option Suc (firstFailure env (Suc k) rest)
      else Some 0)"

text \<open>The stored status of an incident.\<close>

definition incidentStatus :: "world \<Rightarrow> string \<Rightarrow> sosStatus option" where
  "incidentStatus w incidentId =
     map_option s_status (find (\<lambda>i. s_id i = incidentId) (sosIncidents w))"

section \<open>Notions for the claims about case sync\<close>




section \<open>A concrete database and environment\<close>

text \<open>
  The scenario of the specification: a report titled "Bribe by senior official" in
  department "Police" with two completed evidence files, created one hour ago and
  mentioning "ongoing"; two active moderators, one of whom has an open report; one admin.
  Nothing rejects, and every random value is \<open>1/2\<close>.
\<close>

definition exampleModerator1 :: user where
  "exampleModerator1 = \<lparr>u_id = ''m1'', u_firstName = ''Asha'', u_lastName = ''Rao'',
                         u_role = MODERATOR, u_isActive = True\<rparr>"

definition exampleModerator2 :: user where
  "exampleModerator2 = \<lparr>u_id = ''m2'', u_firstName = ''Vikram'', u_lastName = ''Das'',
                         u_role = MODERATOR, u_isActive = True\<rparr>"

definition exampleAdmin :: user where
  "exampleAdmin = \<lparr>u_id = ''a1'', u_firstName = ''Admin'', u_lastName = ''User'',
                    u_role = ADMIN, u_isActive = True\<rparr>"

definition exampleReport :: corruptionReport where
  "exampleReport = \<lparr>r_id = ''r1'', r_title = ''Bribe by senior official'',
                     r_description = ''The demand is ongoing'', r_department = ''Police'',
                     r_status = SUBMITTED, r_assignedTo = None, r_createdAt = 0,
                     r_updatedAt = 0\<rparr>"

definition exampleQuietReport :: corruptionReport where
  "exampleQuietReport = \<lparr>r_id = ''r2'', r_title = ''Late office hours'',
                     r_description = ''The counter opens late'', r_department = ''Transport'',
                     r_status = UNDER_REVIEW, r_assignedTo = Some ''m1'', r_createdAt = 0,
                     r_updatedAt = 0\<rparr>"

definition exampleWorld :: world where
  "exampleWorld = \<lparr>cases = [], caseFollows = [],
      users = [exampleModerator1, exampleModerator2, exampleAdmin],
      corruptionReports = [exampleReport, exampleQuietReport],
      mediaAssets = [\<lparr>m_corruptionReportId = Some ''r1'', m_uploadStatus = COMPLETED\<rparr>,
                     \<lparr>m_corruptionReportId = Some ''r1'', m_uploadStatus = COMPLETED\<rparr>],
      sosIncidents = [], notificationQueue = [], serviceCalls = []\<rparr>"

definition exampleCaseDefaults :: caseRecord where
  "exampleCaseDefaults = \<lparr>c_id = ''new'', c_caseNumber = [], c_title = [], c_court = [],
      c_judge = None, c_status = CasePENDING, c_filingDate = 0, c_nextHearing = None,
      c_updatedAt = 0\<rparr>"

definition exampleEnv :: env where
  "exampleEnv = \<lparr>now = 3600000, random = (\<lambda>_. 1 / 2), dbError = (\<lambda>_. None),
      queueError = (\<lambda>_. None), caseDefaults = exampleCaseDefaults,
      toISOString = (\<lambda>_. ''2024-01-01T01:00:00.000Z''),
      toLocaleString = (\<lambda>_. ''1/1/2024, 1:00:00 AM''),
      toLocaleDateString = (\<lambda>_. ''1/1/2024'')\<rparr>"



text \<open>The triage result of the example report.\<close>

definition exampleTriageResult :: triageResult where
  "exampleTriageResult =
     \<lparr>t_status = INVESTIGATING, t_assignedTo = Some ''m2'', t_priority = HIGH,
      t_reasoning =
        [''High priority keywords detected: bribe, senior official, ongoing'',
         ''High-impact department: Police'', ''2 evidence file(s) attached'',
         ''Recent report mentioning ongoing corruption'',
         ''Assigned to moderator based on expertise and workload'',
         ''High priority - moved directly to investigation'']\<rparr>"

text \<open>An incident that a moderator has moved to \<open>IN_PROGRESS\<close>, its dispatch job on the
  first of three attempts, and an environment whose random values are all \<open>0.99\<close>, so
  that every service call fails.\<close>

definition exampleIncident :: sosIncident where
  "exampleIncident = \<lparr>s_id = ''i1'', s_status = IN_PROGRESS, s_updatedAt = 0\<rparr>"

definition sosWorld :: world where
  "sosWorld = exampleWorld\<lparr>sosIncidents := [exampleIncident]\<rparr>"

definition exampleSosJob :: sosDispatchJob where
  "exampleSosJob =
     \<lparr>sj_data = \<lparr>sd_incidentId = ''i1'', sd_description = ''Road accident'',
                 sd_priority = SosHIGH\<rparr>,
      sj_attemptsMade = 0, sj_attempts = 3\<rparr>"









text \<open>A job system whose workers all run, with eleven failed notification jobs; and the
  same queues with a stopped worker.\<close>

definition exampleQueue :: "string \<Rightarrow> nat \<Rightarrow> jobQueue" where
  "exampleQueue name failedJobs =
     \<lparr>q_name = name, q_waiting = [], q_active = [], q_completed = [],
      q_failed = map showNat [0 ..< failedJobs], q_delayed = []\<rparr>"

definition exampleJobSystem :: jobSystem where
  "exampleJobSystem =
     \<lparr>workers = [\<lparr>wk_name = ''sos-dispatch'', wk_isRunning = True\<rparr>,
                 \<lparr>wk_name = ''notifications'', wk_isRunning = True\<rparr>,
                 \<lparr>wk_name = ''case-sync'', wk_isRunning = True\<rparr>,
                 \<lparr>wk_name = ''report-triage'', wk_isRunning = True\<rparr>],
      queues = [exampleQueue ''sos-dispatch'' 0, exampleQueue ''notifications'' 11,
                exampleQueue ''case-sync'' 10, exampleQueue ''report-triage'' 0]\<rparr>"

definition stoppedJobSystem :: jobSystem where
  "stoppedJobSystem =
     exampleJobSystem\<lparr>workers := [\<lparr>wk_name = ''sos-dispatch'', wk_isRunning = True\<rparr>,
                                  \<lparr>wk_name = ''notifications'', wk_isRunning = False\<rparr>]\<rparr>"

section \<open>Facts about the concrete database\<close>

lemma exampleEnv_dbError: "dbError exampleEnv op = None"
  by (simp add: exampleEnv_def)


lemma exampleReport_triage:
  "performAutoTriage exampleEnv exampleWorld exampleReport =
     Inr \<lparr>t_status = INVESTIGATING, t_assignedTo = Some ''m2'', t_priority = HIGH,
           t_reasoning =
             [''High priority keywords detected: bribe, senior official, ongoing'',
              ''High-impact department: Police'', ''2 evidence file(s) attached'',
              ''Recent report mentioning ongoing corruption'',
              ''Assigned to moderator based on expertise and workload'',
              ''High priority - moved directly to investigation'']\<rparr>"
  by code_simp

lemma exampleQuietReport_triage:
  "performAutoTriage exampleEnv exampleWorld exampleQuietReport =
     Inr \<lparr>t_status = UNDER_REVIEW, t_assignedTo = Some ''m1'', t_priority = MEDIUM,
           t_reasoning = [''Assigned to moderator based on expertise and workload'']\<rparr>"
  by code_simp

section \<open>The triage priority\<close>

lemma highKeywordStage_notLOW: "fst s \<noteq> LOW \<Longrightarrow> fst (highKeywordStage c s) \<noteq> LOW"
  by (cases s) (simp add: highKeywordStage_def Let_def)

lemma mediumKeywordStage_notLOW: "fst s \<noteq> LOW \<Longrightarrow> fst (mediumKeywordStage c s) \<noteq> LOW"
  by (cases s) (simp add: mediumKeywordStage_def Let_def)

lemma departmentStage_notLOW: "fst s \<noteq> LOW \<Longrightarrow> fst (departmentStage r s) \<noteq> LOW"
  by (cases s) (simp add: departmentStage_def Let_def)

lemma evidenceStage_notLOW: "fst s \<noteq> LOW \<Longrightarrow> fst (evidenceStage n s) \<noteq> LOW"
  by (cases s) (simp add: evidenceStage_def)

lemma recencyStage_notLOW: "fst s \<noteq> LOW \<Longrightarrow> fst (recencyStage env r c s) \<noteq> LOW"
  by (cases s) (simp add: recencyStage_def Let_def)

lemma highKeywordStage_HIGH:
  "\<exists>k \<in> set highPriorityKeywords. includesStr c k \<Longrightarrow> fst (highKeywordStage c s) = HIGH"
  by (cases s) (auto simp add: highKeywordStage_def Let_def filter_empty_conv)

lemma mediumKeywordStage_HIGH: "fst s = HIGH \<Longrightarrow> fst (mediumKeywordStage c s) = HIGH"
  by (cases s) (simp add: mediumKeywordStage_def Let_def)

lemma departmentStage_HIGH: "fst s = HIGH \<Longrightarrow> fst (departmentStage r s) = HIGH"
  by (cases s) (simp add: departmentStage_def Let_def)

lemma evidenceStage_HIGH: "fst s = HIGH \<Longrightarrow> fst (evidenceStage n s) = HIGH"
  by (cases s) (simp add: evidenceStage_def)

lemma recencyStage_HIGH: "fst s = HIGH \<Longrightarrow> fst (recencyStage env r c s) = HIGH"
  by (cases s) (simp add: recencyStage_def Let_def)

lemma performAutoTriage_Inr:
  "performAutoTriage env w report = Inr t \<Longrightarrow>
     \<exists>n. mediaAssetCount env w (r_id report) = Inr n
        \<and> t_priority t =
            fst (recencyStage env report (reportContent report)
                  (evidenceStage n
                    (departmentStage report
                      (mediumKeywordStage (reportContent report)
                        (highKeywordStage (reportContent report) (MEDIUM, []))))))
        \<and> t_status t = (if t_priority t = HIGH then INVESTIGATING else UNDER_REVIEW)
        \<and> t_assignedTo t = findBestModerator env w (r_department report) (t_priority t)"
  by (auto simp add: performAutoTriage_def Let_def split: sum.splits if_splits)

lemma performAutoTriage_total:
  "dbError env (MediaAssetCount (r_id report)) = None \<Longrightarrow>
     \<exists>t. performAutoTriage env w report = Inr t"
  by (simp add: performAutoTriage_def mediaAssetCount_def Let_def)

lemma performAutoTriage_notLOW:
  assumes "performAutoTriage env w report = Inr t"
  shows "t_priority t \<noteq> LOW"
proof -
  from performAutoTriage_Inr [OF assms] obtain n where
    "t_priority t =
       fst (recencyStage env report (reportContent report)
             (evidenceStage n
               (departmentStage report
                 (mediumKeywordStage (reportContent report)
                   (highKeywordStage (reportContent report) (MEDIUM, []))))))"
    by blast
  moreover have "\<dots> \<noteq> LOW"
    by (intro recencyStage_notLOW evidenceStage_notLOW departmentStage_notLOW
          mediumKeywordStage_notLOW highKeywordStage_notLOW) simp
  ultimately show ?thesis by simp
qed

lemma performAutoTriage_keyword_HIGH:
  assumes "performAutoTriage env w report = Inr t"
    and "\<exists>k \<in> set highPriorityKeywords. includesStr (reportContent report) k"
  shows "t_priority t = HIGH"
proof -
  from performAutoTriage_Inr [OF assms(1)] obtain n where
    "t_priority t =
       fst (recencyStage env report (reportContent report)
             (evidenceStage n
               (departmentStage report
                 (mediumKeywordStage (reportContent report)
                   (highKeywordStage (reportContent report) (MEDIUM, []))))))"
    by blast
  moreover have "\<dots> = HIGH"
    by (intro recencyStage_HIGH evidenceStage_HIGH departmentStage_HIGH
          mediumKeywordStage_HIGH highKeywordStage_HIGH assms(2))
  ultimately show ?thesis by simp
qed

lemma priorityRank_le_HIGH: "priorityRank p \<le> priorityRank HIGH"
  by (cases p) simp_all

text \<open>
  Claim C9. Every triage that returns has priority \<open>MEDIUM\<close> or \<open>HIGH\<close>, and it
  returns whenever the evidence count does not reject. The priority that reaches the
  department block is not \<open>LOW\<close>, neither before nor after its first assignment, and the
  priority that reaches the evidence block is not \<open>LOW\<close>: the two \<open>LOW\<close> to \<open>MEDIUM\<close>
  assignments never run. The status is \<open>INVESTIGATING\<close> for \<open>HIGH\<close> and \<open>UNDER_REVIEW\<close>
  otherwise, and the assignee is that of \<open>findBestModerator\<close> at the computed priority,
  whose random branch is the one for priorities other than \<open>HIGH\<close>, that is \<open>MEDIUM\<close>.
\<close>

theorem performAutoTriage_never_LOW:
  "(dbError env (MediaAssetCount (r_id report)) = None \<longrightarrow>
      (\<exists>t. performAutoTriage env w report = Inr t))
   \<and> (\<forall>t. performAutoTriage env w report = Inr t \<longrightarrow>
         (t_priority t = MEDIUM \<or> t_priority t = HIGH)
       \<and> (t_status t = UNDER_REVIEW \<or> t_status t = INVESTIGATING)
       \<and> (t_status t = INVESTIGATING \<longleftrightarrow> t_priority t = HIGH)
       \<and> (t_priority t \<noteq> HIGH \<longleftrightarrow> t_priority t = MEDIUM)
       \<and> t_assignedTo t = findBestModerator env w (r_department report) (t_priority t))
   \<and> (let entering = fst (mediumKeywordStage (reportContent report)
                            (highKeywordStage (reportContent report) (MEDIUM, [])))
      in entering \<noteq> LOW \<and> (if entering = MEDIUM then HIGH else entering) \<noteq> LOW)
   \<and> fst (departmentStage report
            (mediumKeywordStage (reportContent report)
              (highKeywordStage (reportContent report) (MEDIUM, [])))) \<noteq> LOW"
proof (intro conjI impI allI)
  assume "dbError env (MediaAssetCount (r_id report)) = None"
  then show "\<exists>t. performAutoTriage env w report = Inr t"
    by (rule performAutoTriage_total)
next
  fix t assume t: "performAutoTriage env w report = Inr t"
  from performAutoTriage_Inr [OF t] have
    s: "t_status t = (if t_priority t = HIGH then INVESTIGATING else UNDER_REVIEW)"
    and a: "t_assignedTo t = findBestModerator env w (r_department report) (t_priority t)"
    by blast+
  from performAutoTriage_notLOW [OF t]
  show m: "t_priority t = MEDIUM \<or> t_priority t = HIGH"
    by (cases "t_priority t") simp_all
  from s show "t_status t = UNDER_REVIEW \<or> t_status t = INVESTIGATING" by simp
  from s show "t_status t = INVESTIGATING \<longleftrightarrow> t_priority t = HIGH" by simp
  from m show "t_priority t \<noteq> HIGH \<longleftrightarrow> t_priority t = MEDIUM" by auto
  from a show "t_assignedTo t = findBestModerator env w (r_department report) (t_priority t)" .
next
  have "fst (mediumKeywordStage (reportContent report)
              (highKeywordStage (reportContent report) (MEDIUM, []))) \<noteq> LOW"
    by (intro mediumKeywordStage_notLOW highKeywordStage_notLOW) simp
  then show "let entering = fst (mediumKeywordStage (reportContent report)
                                 (highKeywordStage (reportContent report) (MEDIUM, [])))
      in entering \<noteq> LOW \<and> (if entering = MEDIUM then HIGH else entering) \<noteq> LOW"
    by (simp add: Let_def)
next
  show "fst (departmentStage report
              (mediumKeywordStage (reportContent report)
                (highKeywordStage (reportContent report) (MEDIUM, [])))) \<noteq> LOW"
    by (intro departmentStage_notLOW mediumKeywordStage_notLOW highKeywordStage_notLOW) simp
qed

theorem performAutoTriage_never_LOW_witness:
  "dbError exampleEnv (MediaAssetCount (r_id exampleQuietReport)) = None
   \<and> (\<exists>t. performAutoTriage exampleEnv exampleWorld exampleQuietReport = Inr t
          \<and> t_priority t = MEDIUM \<and> t_status t = UNDER_REVIEW
          \<and> t_assignedTo t
              = findBestModerator exampleEnv exampleWorld (r_department exampleQuietReport) MEDIUM)"
proof -
  have h: "dbError exampleEnv (MediaAssetCount (r_id exampleQuietReport)) = None"
    by (rule exampleEnv_dbError)
  from performAutoTriage_never_LOW [of exampleEnv exampleQuietReport exampleWorld] h
  show ?thesis
    by (simp add: exampleQuietReport_triage)
qed

text \<open>
  Claim C4. Take a report and a second one with the same department, the same evidence
  (the same report id, in the same database) and the same creation time, whose scanned
  text contains one of the high-priority keywords. When the evidence count does not
  reject, both triages return, and the priority of the second is at least the priority of
  the first in the order \<open>LOW < MEDIUM < HIGH\<close>. Whatever else the two texts share does
  not matter.
\<close>

theorem performAutoTriage_keyword_monotonic:
  assumes "r_department report' = r_department report"
    and "r_id report' = r_id report"
    and "r_createdAt report' = r_createdAt report"
    and "\<exists>k \<in> set highPriorityKeywords. includesStr (reportContent report') k"
    and "dbError env (MediaAssetCount (r_id report)) = None"
  shows "\<exists>t t'. performAutoTriage env w report = Inr t
             \<and> performAutoTriage env w report' = Inr t'
             \<and> priorityRank (t_priority t) \<le> priorityRank (t_priority t')"
proof -
  from assms(5) obtain t where t: "performAutoTriage env w report = Inr t"
    using performAutoTriage_total by blast
  from assms(2,5) obtain t' where t': "performAutoTriage env w report' = Inr t'"
    using performAutoTriage_total [of env report' w] by auto
  from performAutoTriage_keyword_HIGH [OF t' assms(4)] have "t_priority t' = HIGH" .
  then have "priorityRank (t_priority t) \<le> priorityRank (t_priority t')"
    by (simp only: priorityRank_le_HIGH)
  with t t' show ?thesis by blast
qed

theorem performAutoTriage_keyword_monotonic_witness:
  "(\<exists>k \<in> set highPriorityKeywords.
       includesStr (reportContent (exampleQuietReport\<lparr>r_description := ''The counter opens late, for a bribe''\<rparr>)) k)
   \<and> dbError exampleEnv (MediaAssetCount (r_id exampleQuietReport)) = None
   \<and> (\<exists>t t'. performAutoTriage exampleEnv exampleWorld exampleQuietReport = Inr t
          \<and> performAutoTriage exampleEnv exampleWorld
               (exampleQuietReport\<lparr>r_description := ''The counter opens late, for a bribe''\<rparr>) = Inr t'
          \<and> t_priority t = MEDIUM
          \<and> priorityRank (t_priority t) \<le> priorityRank (t_priority t'))"
proof -
  let ?r' = "exampleQuietReport\<lparr>r_description := ''The counter opens late, for a bribe''\<rparr>"
  have k: "\<exists>k \<in> set highPriorityKeywords. includesStr (reportContent ?r') k"
  proof
    show "includesStr (reportContent ?r') ''bribe''" by code_simp
    show "''bribe'' \<in> set highPriorityKeywords" by (simp add: highPriorityKeywords_def)
  qed
  have h: "dbError exampleEnv (MediaAssetCount (r_id exampleQuietReport)) = None"
    by (rule exampleEnv_dbError)
  from performAutoTriage_keyword_monotonic [of ?r' exampleQuietReport, OF _ _ _ k h, of exampleWorld]
  have "\<exists>t t'. performAutoTriage exampleEnv exampleWorld exampleQuietReport = Inr t
            \<and> performAutoTriage exampleEnv exampleWorld ?r' = Inr t'
            \<and> priorityRank (t_priority t) \<le> priorityRank (t_priority t')"
    by simp
  then have "\<exists>t t'. performAutoTriage exampleEnv exampleWorld exampleQuietReport = Inr t
            \<and> performAutoTriage exampleEnv exampleWorld ?r' = Inr t'
            \<and> t_priority t = MEDIUM
            \<and> priorityRank (t_priority t) \<le> priorityRank (t_priority t')"
    by (auto simp add: exampleQuietReport_triage)
  with k h show ?thesis by blast
qed

section \<open>Choosing a moderator\<close>






















section \<open>Triage survives failures of assignment and notification\<close>
















section \<open>Notification templates\<close>

lemma enqueueEach_queue_take:
  "\<exists>k. notificationQueue (snd (enqueueEach env ds w))
         = notificationQueue w @ map (Pair ''send-notification'') (take k ds)"
proof (induction ds arbitrary: w)
  case Nil
  then show ?case by simp
next
  case (Cons d ds)
  show ?case
  proof (cases "queueError env d")
    case None
    let ?w = "w\<lparr>notificationQueue := notificationQueue w @ [(''send-notification'', d)]\<rparr>"
    from Cons.IH [of ?w] obtain k where
      "notificationQueue (snd (enqueueEach env ds ?w))
         = notificationQueue ?w @ map (Pair ''send-notification'') (take k ds)"
      by blast
    with None have "notificationQueue (snd (enqueueEach env (d # ds) w))
         = notificationQueue w @ map (Pair ''send-notification'') (take (Suc k) (d # ds))"
      by (simp add: queueAdd_def)
    then show ?thesis by blast
  next
    case (Some e)
    then have "notificationQueue (snd (enqueueEach env (d # ds) w))
         = notificationQueue w @ map (Pair ''send-notification'') (take 0 (d # ds))"
      by (simp add: queueAdd_def)
    then show ?thesis by blast
  qed
qed

lemma notifyModerators_added:
  "\<exists>added. notificationQueue (notifyModerators env w report t) = notificationQueue w @ added
      \<and> (\<forall>(name, d) \<in> set added. name = ''send-notification'' \<and> n_type d = Email
             \<and> n_template d = ''high-priority-report'')"
proof (cases "userFindMany env w [MODERATOR, ADMIN]")
  case (Inl e)
  then have "notificationQueue (notifyModerators env w report t) = notificationQueue w @ []"
    by (simp add: notifyModerators_def)
  then show ?thesis by fastforce
next
  case (Inr moderators)
  from enqueueEach_queue_take [of env "map (moderatorNotification report t) moderators" w]
  obtain k where "notificationQueue (snd (enqueueEach env (map (moderatorNotification report t) moderators) w))
         = notificationQueue w @ map (Pair ''send-notification'')
             (take k (map (moderatorNotification report t) moderators))"
    by blast
  with Inr have "notificationQueue (notifyModerators env w report t)
      = notificationQueue w @ map (Pair ''send-notification'')
             (take k (map (moderatorNotification report t) moderators))"
    by (simp add: notifyModerators_def)
  moreover have "\<forall>(name, d) \<in> set (map (Pair ''send-notification'')
             (take k (map (moderatorNotification report t) moderators))).
           name = ''send-notification'' \<and> n_type d = Email \<and> n_template d = ''high-priority-report''"
    by (auto simp add: moderatorNotification_def dest!: in_set_takeD)
  ultimately show ?thesis by blast
qed

lemma generateEmailContent_default:
  "template \<notin> set templateTable \<Longrightarrow> generateEmailContent env template data = genericEmail"
  by (simp add: generateEmailContent_def genericEmail_def templateTable_def)

lemma generateSMSContent_default:
  "template \<notin> set templateTable \<Longrightarrow> generateSMSContent env template data = genericSMS"
  by (simp add: generateSMSContent_def genericSMS_def templateTable_def)

lemma high_priority_report_not_in_table: "''high-priority-report'' \<notin> set templateTable"
  by (simp add: templateTable_def)

lemma example_notifyModerators_length:
  "length (notificationQueue
             (notifyModerators exampleEnv exampleWorld exampleReport exampleTriageResult)) = 3"
  by code_simp

lemma exampleWorld_queue: "notificationQueue exampleWorld = []"
  by (simp add: exampleWorld_def)


text \<open>
  Claim C8. For a template name outside the table, \<open>generateEmailContent\<close> returns the
  generic message and \<open>generateSMSContent\<close> the generic text. The name
  \<^verbatim>\<open>high-priority-report\<close> is outside the table, and every job that
  \<open>notifyModerators\<close> adds is an email job with that template, so whatever its data, the
  email rendered for it is the generic message.
\<close>

theorem unknown_template_generic:
  "(template \<notin> set templateTable \<longrightarrow>
       generateEmailContent env template data = genericEmail
     \<and> generateSMSContent env template data = genericSMS)
   \<and> ''high-priority-report'' \<notin> set templateTable
   \<and> (\<exists>added. notificationQueue (notifyModerators env w report t) = notificationQueue w @ added
        \<and> (\<forall>(name, d) \<in> set added.
              name = ''send-notification'' \<and> n_type d = Email
            \<and> n_template d = ''high-priority-report''
            \<and> generateEmailContent env' (n_template d) (n_data d) = genericEmail))"
proof (intro conjI impI)
  assume "template \<notin> set templateTable"
  then show "generateEmailContent env template data = genericEmail"
    by (rule generateEmailContent_default)
next
  assume "template \<notin> set templateTable"
  then show "generateSMSContent env template data = genericSMS"
    by (rule generateSMSContent_default)
next
  show "''high-priority-report'' \<notin> set templateTable"
    by (rule high_priority_report_not_in_table)
next
  from notifyModerators_added [of env w report t] obtain added where
    a: "notificationQueue (notifyModerators env w report t) = notificationQueue w @ added"
    and b: "\<forall>(name, d) \<in> set added. name = ''send-notification'' \<and> n_type d = Email
             \<and> n_template d = ''high-priority-report''"
    by blast
  from b have "\<forall>(name, d) \<in> set added.
              name = ''send-notification'' \<and> n_type d = Email
            \<and> n_template d = ''high-priority-report''
            \<and> generateEmailContent env' (n_template d) (n_data d) = genericEmail"
    using generateEmailContent_default [OF high_priority_report_not_in_table] by fastforce
  with a show "\<exists>added. notificationQueue (notifyModerators env w report t) = notificationQueue w @ added
        \<and> (\<forall>(name, d) \<in> set added.
              name = ''send-notification'' \<and> n_type d = Email
            \<and> n_template d = ''high-priority-report''
            \<and> generateEmailContent env' (n_template d) (n_data d) = genericEmail)"
    by blast
qed


theorem unknown_template_generic_witness:
  "''welcome'' \<notin> set templateTable
   \<and> generateEmailContent exampleEnv ''welcome'' [] = genericEmail
   \<and> generateSMSContent exampleEnv ''welcome'' [] = genericSMS
   \<and> (\<exists>added. notificationQueue
                  (notifyModerators exampleEnv exampleWorld exampleReport exampleTriageResult)
                = notificationQueue exampleWorld @ added
        \<and> length added = 3
        \<and> list_all (\<lambda>(name, d). n_template d = ''high-priority-report''
                       \<and> generateEmailContent exampleEnv (n_template d) (n_data d) = genericEmail)
             added)"
proof -
  have n: "''welcome'' \<notin> set templateTable"
    by (simp add: templateTable_def)
  note c = unknown_template_generic [of "''welcome''" exampleEnv "[]" exampleWorld exampleReport
      exampleTriageResult exampleEnv]
  from c obtain added where
    a: "notificationQueue (notifyModerators exampleEnv exampleWorld exampleReport exampleTriageResult)
          = notificationQueue exampleWorld @ added"
    and b: "\<forall>(name, d) \<in> set added.
              name = ''send-notification'' \<and> n_type d = Email
            \<and> n_template d = ''high-priority-report''
            \<and> generateEmailContent exampleEnv (n_template d) (n_data d) = genericEmail"
    by blast
  from a have "length added = 3"
    using example_notifyModerators_length by (simp add: exampleWorld_queue)
  moreover from b have "list_all (\<lambda>(name, d). n_template d = ''high-priority-report''
                       \<and> generateEmailContent exampleEnv (n_template d) (n_data d) = genericEmail)
             added"
    by (auto simp add: list_all_iff)
  ultimately show ?thesis using c n a by blast
qed

section \<open>SOS dispatch\<close>


lemma firstFailure_Some_less: "firstFailure env k ss = Some i \<Longrightarrow> i < length ss"
  by (induction ss arbitrary: k i) (auto split: if_splits)









lemma example_dispatch_ok:
  "fst (processSosDispatch exampleEnv sosWorld exampleSosJob)
     = Inr \<lparr>sr_success = True, sr_servicesNotified = [''Police'', ''Medical'', ''Fire Department'']\<rparr>"
  "serviceCalls (snd (processSosDispatch exampleEnv sosWorld exampleSosJob))
     = [''Police'', ''Medical'', ''Fire Department'']"
  "incidentStatus (snd (processSosDispatch exampleEnv sosWorld exampleSosJob)) ''i1''
     = Some ACKNOWLEDGED"
  by code_simp+










lemma incidentStatus_serviceCalls [simp]:
  "incidentStatus (w\<lparr>serviceCalls := c\<rparr>) incidentId = incidentStatus w incidentId"
  by (simp add: incidentStatus_def)







section \<open>Case sync\<close>
























section \<open>Health check\<close>

lemma example_job_system:
  "list_all wk_isRunning (workers exampleJobSystem)"
  "list_ex (\<lambda>q. length (q_failed q) > 10) (queues exampleJobSystem)"
  "list_ex (\<lambda>w. \<not> wk_isRunning w) (workers stoppedJobSystem)"
  by code_simp+


text \<open>
  Claim C7. The status is \<open>unhealthy\<close> exactly when some worker is not running; with all
  workers running it is \<open>degraded\<close> exactly when some queue has more than ten failed
  jobs; it is \<open>healthy\<close> exactly when all workers run and no queue has more than ten
  failed jobs. The report lists every worker, by name, as running or stopped.
\<close>

theorem checkJobSystemHealth_status:
  "(h_status (checkJobSystemHealth js) = Unhealthy
      \<longleftrightarrow> (\<exists>w \<in> set (workers js). \<not> wk_isRunning w))
   \<and> ((\<forall>w \<in> set (workers js). wk_isRunning w) \<longrightarrow>
        (h_status (checkJobSystemHealth js) = Degraded
           \<longleftrightarrow> (\<exists>q \<in> set (queues js). length (q_failed q) > 10)))
   \<and> (h_status (checkJobSystemHealth js) = Healthy
        \<longleftrightarrow> (\<forall>w \<in> set (workers js). wk_isRunning w)
            \<and> \<not> (\<exists>q \<in> set (queues js). length (q_failed q) > 10))
   \<and> (h_status (checkJobSystemHealth js) = Degraded \<longrightarrow> (\<forall>w \<in> set (workers js). wk_isRunning w))
   \<and> map ws_name (h_workers (checkJobSystemHealth js)) = map wk_name (workers js)
   \<and> map (\<lambda>s. ws_status s = ''running'') (h_workers (checkJobSystemHealth js))
       = map wk_isRunning (workers js)
   \<and> map (\<lambda>s. ws_status s = ''stopped'') (h_workers (checkJobSystemHealth js))
       = map (\<lambda>w. \<not> wk_isRunning w) (workers js)"
  by (auto simp add: checkJobSystemHealth_def getQueueStats_def Let_def list_all_iff list_ex_iff
        comp_def)

theorem checkJobSystemHealth_status_witness:
  "list_all wk_isRunning (workers exampleJobSystem)
   \<and> list_ex (\<lambda>q. length (q_failed q) > 10) (queues exampleJobSystem)
   \<and> h_status (checkJobSystemHealth exampleJobSystem) = Degraded
   \<and> list_ex (\<lambda>w. \<not> wk_isRunning w) (workers stoppedJobSystem)
   \<and> h_status (checkJobSystemHealth stoppedJobSystem) = Unhealthy"
proof -
  have r: "\<forall>w \<in> set (workers exampleJobSystem). wk_isRunning w"
    using example_job_system(1) by (simp add: list_all_iff)
  have f: "\<exists>q \<in> set (queues exampleJobSystem). length (q_failed q) > 10"
    using example_job_system(2) by (simp add: list_ex_iff)
  have s: "\<exists>w \<in> set (workers stoppedJobSystem). \<not> wk_isRunning w"
    using example_job_system(3) by (simp add: list_ex_iff)
  from checkJobSystemHealth_status [of exampleJobSystem] r f
  have "h_status (checkJobSystemHealth exampleJobSystem) = Degraded" by blast
  moreover from checkJobSystemHealth_status [of stoppedJobSystem] s
  have "h_status (checkJobSystemHealth stoppedJobSystem) = Unhealthy" by blast
  ultimately show ?thesis using example_job_system by simp
qed

end
